theory Spec2Isabelle
  imports Complex_Main "HOL-Library.Char_ord"
begin

section \<open>Python string primitives\<close>

text \<open>
  Python strings are modelled as \<open>string\<close>: lists of 8-bit characters, each read as the
  Unicode code point of the same number (0 to 255, the ASCII and Latin-1 blocks).  On
  these characters the classes and case mappings below are the ones of \<open>str.isupper\<close>,
  \<open>str.islower\<close>, \<open>str.isspace\<close>, \<open>str.lower\<close>, \<open>str.upper\<close>, \<open>str.title\<close> and of the
  classes \<open>\w\<close> and \<open>\d\<close> of the \<open>re\<close> module, with one exception: the capital forms of
  the micro sign (code 0xB5) and of y with diaeresis (0xFF) are the code points 0x39C and
  0x178, which are no 8-bit characters; the model leaves these two characters as they are
  where Python capitalizes them.
\<close>

text \<open>Uppercase letters: A to Z, and the Latin-1 capitals 0xC0 to 0xDE without the
  multiplication sign 0xD7.\<close>

definition is_upper :: "char \<Rightarrow> bool" where
  "is_upper c \<longleftrightarrow> (CHR ''A'' \<le> c \<and> c \<le> CHR ''Z'') \<or> (CHR 0xC0 \<le> c \<and> c \<le> CHR 0xD6)
      \<or> (CHR 0xD8 \<le> c \<and> c \<le> CHR 0xDE)"

text \<open>Lowercase letters: a to z, the ordinal indicators 0xAA and 0xBA, the micro sign 0xB5,
  and the Latin-1 small letters 0xDF to 0xFF without the division sign 0xF7.\<close>

definition is_lower :: "char \<Rightarrow> bool" where
  "is_lower c \<longleftrightarrow> (CHR ''a'' \<le> c \<and> c \<le> CHR ''z'') \<or> c = CHR 0xAA \<or> c = CHR 0xB5
      \<or> c = CHR 0xBA \<or> (CHR 0xDF \<le> c \<and> c \<le> CHR 0xF6) \<or> (CHR 0xF8 \<le> c \<and> c \<le> CHR 0xFF)"

definition is_cased :: "char \<Rightarrow> bool" where
  "is_cased c \<longleftrightarrow> is_upper c \<or> is_lower c"

text \<open>The class \<open>\d\<close>: the decimal digits.\<close>

definition is_digit :: "char \<Rightarrow> bool" where
  "is_digit c \<longleftrightarrow> CHR ''0'' \<le> c \<and> c \<le> CHR ''9''"

text \<open>Whitespace of \<open>str.split()\<close> and \<open>str.strip()\<close>: TAB, LF, VT, FF, CR (codes 9 to 13),
  the four separators FS, GS, RS, US (28 to 31), the space (32), the next-line control
  0x85 and the no-break space 0xA0.\<close>

definition is_space :: "char \<Rightarrow> bool" where
  "is_space c \<longleftrightarrow> (CHR 0x09 \<le> c \<and> c \<le> CHR 0x0D) \<or> (CHR 0x1C \<le> c \<and> c \<le> CHR 0x20)
      \<or> c = CHR 0x85 \<or> c = CHR 0xA0"

text \<open>The class \<open>\w\<close>: the alphanumeric characters of \<open>str.isalnum\<close> and the underscore.
  Besides letters and decimal digits these are the superscripts 0xB2, 0xB3, 0xB9 and the
  fractions 0xBC to 0xBE.\<close>

definition is_word :: "char \<Rightarrow> bool" where
  "is_word c \<longleftrightarrow> is_cased c \<or> is_digit c \<or> c = CHR ''_'' \<or> c = CHR 0xB2 \<or> c = CHR 0xB3
      \<or> c = CHR 0xB9 \<or> (CHR 0xBC \<le> c \<and> c \<le> CHR 0xBE)"

text \<open>A letter and its other case differ in the bit of value 32 (\<open>'A'\<close> is 65, \<open>'a'\<close> is
  97; 0xC0 and 0xE0): lowering sets it, raising clears it.\<close>

definition to_lower :: "char \<Rightarrow> char" where
  "to_lower c = (if is_upper c
     then (case c of Char b0 b1 b2 b3 b4 b5 b6 b7 \<Rightarrow> Char b0 b1 b2 b3 b4 True b6 b7) else c)"

text \<open>The lowercase letters whose capital is the character 32 below: a to z and 0xE0 to
  0xFE without 0xF7.\<close>

definition has_capital :: "char \<Rightarrow> bool" where
  "has_capital c \<longleftrightarrow> (CHR ''a'' \<le> c \<and> c \<le> CHR ''z'') \<or> (CHR 0xE0 \<le> c \<and> c \<le> CHR 0xF6)
      \<or> (CHR 0xF8 \<le> c \<and> c \<le> CHR 0xFE)"

definition to_upper :: "char \<Rightarrow> char" where
  "to_upper c = (if has_capital c
     then (case c of Char b0 b1 b2 b3 b4 b5 b6 b7 \<Rightarrow> Char b0 b1 b2 b3 b4 False b6 b7) else c)"

text \<open>The uppercase and the titlecase form of one character.  The sharp s (0xDF) becomes
  two letters.\<close>

definition upper_chars :: "char \<Rightarrow> string" where
  "upper_chars c = (if c = CHR 0xDF then ''SS'' else [to_upper c])"

definition title_chars :: "char \<Rightarrow> string" where
  "title_chars c = (if c = CHR 0xDF then ''Ss'' else [to_upper c])"


definition lower :: "string \<Rightarrow> string" where
  "lower s = map to_lower s"

definition upper :: "string \<Rightarrow> string" where
  "upper s = concat (map upper_chars s)"

text \<open>\<open>str.isupper()\<close>: at least one cased character and no lowercase one.\<close>

definition isupper :: "string \<Rightarrow> bool" where
  "isupper s \<longleftrightarrow> list_ex is_cased s \<and> list_all (\<lambda>c. \<not> is_lower c) s"

definition strip :: "string \<Rightarrow> string" where
  "strip s = rev (dropWhile is_space (rev (dropWhile is_space s)))"

text \<open>\<open>str.split()\<close> without arguments: the maximal runs of non-whitespace characters.
  \<open>cur\<close> is the run read so far.\<close>

fun split_acc :: "string \<Rightarrow> string \<Rightarrow> string list" where
  "split_acc cur [] = (if cur = [] then [] else [cur])"
| "split_acc cur (c # cs) =
     (if is_space c then (if cur = [] then split_acc [] cs else cur # split_acc [] cs)
      else split_acc (cur @ [c]) cs)"

definition split :: "string \<Rightarrow> string list" where
  "split s = split_acc [] s"

fun join :: "string \<Rightarrow> string list \<Rightarrow> string" where
  "join sep [] = []"
| "join sep [w] = w"
| "join sep (w # v # ws) = w @ sep @ join sep (v # ws)"

text \<open>\<open>str.title()\<close>: a cased character gets its titlecase form when the character before
  it is not cased (or there is none) and its lowercase form otherwise; \<open>prev\<close> tells
  whether the previous character was cased.\<close>

fun title_from :: "bool \<Rightarrow> string \<Rightarrow> string" where
  "title_from prev [] = []"
| "title_from prev (c # cs) =
     (if is_cased c then (if prev then [to_lower c] else title_chars c) @ title_from True cs
      else c # title_from False cs)"

definition title :: "string \<Rightarrow> string" where
  "title s = title_from False s"

subsection \<open>Whole-word substitution, \<open>re.sub(r'\b(p1|p2|...)\b', repl, s)\<close>\<close>

text \<open>\<open>\b\<close> holds between two positions exactly one of which holds a word character; the
  ends of the string count as non-word.\<close>

definition is_word_opt :: "char option \<Rightarrow> bool" where
  "is_word_opt x = (case x of None \<Rightarrow> False | Some c \<Rightarrow> is_word c)"

definition word_boundary :: "char option \<Rightarrow> char option \<Rightarrow> bool" where
  "word_boundary a b \<longleftrightarrow> is_word_opt a \<noteq> is_word_opt b"

text \<open>The literal \<open>pat\<close> at the start of \<open>s\<close>; \<open>ic\<close> is the flag \<open>re.IGNORECASE\<close>.\<close>

fun match_prefix :: "bool \<Rightarrow> string \<Rightarrow> string \<Rightarrow> bool" where
  "match_prefix ic [] s = True"
| "match_prefix ic (p # ps) [] = False"
| "match_prefix ic (p # ps) (c # cs) =
     ((if ic then to_lower p = to_lower c else p = c) \<and> match_prefix ic ps cs)"

definition head_opt :: "string \<Rightarrow> char option" where
  "head_opt s = (case s of [] \<Rightarrow> None | c # _ \<Rightarrow> Some c)"

definition last_opt :: "string \<Rightarrow> char option" where
  "last_opt s = (if s = [] then None else Some (last s))"

text \<open>\<open>\bpat\b\<close> matches at the start of \<open>s\<close>, where \<open>prev\<close> is the character before.\<close>

definition matches_here :: "bool \<Rightarrow> char option \<Rightarrow> string \<Rightarrow> string \<Rightarrow> bool" where
  "matches_here ic prev s pat \<longleftrightarrow>
     word_boundary prev (head_opt s) \<and> match_prefix ic pat s
     \<and> word_boundary (last_opt (take (length pat) s)) (head_opt (drop (length pat) s))"

text \<open>The scan of \<open>re.sub\<close>, left to right over non-overlapping matches.  At each position
  the alternatives are tried in order; the matched text \<open>m\<close> is replaced by \<open>repl m\<close> and the
  scan goes on behind it (\<open>k\<close> counts the matched characters still to be passed over).  All
  alternatives are non-empty literals.\<close>

fun re_sub_words ::
  "bool \<Rightarrow> string list \<Rightarrow> (string \<Rightarrow> string) \<Rightarrow> char option \<Rightarrow> nat \<Rightarrow> string \<Rightarrow> string" where
  "re_sub_words ic alts repl prev k [] = []"
| "re_sub_words ic alts repl prev k (c # cs) =
     (if 0 < k then re_sub_words ic alts repl (Some c) (k - 1) cs
      else (case find (matches_here ic prev (c # cs)) alts of
              Some pat \<Rightarrow> repl (take (length pat) (c # cs))
                          @ re_sub_words ic alts repl (Some c) (length pat - 1) cs
            | None \<Rightarrow> c # re_sub_words ic alts repl (Some c) 0 cs))"

definition re_sub :: "bool \<Rightarrow> string list \<Rightarrow> (string \<Rightarrow> string) \<Rightarrow> string \<Rightarrow> string" where
  "re_sub ic alts repl s = re_sub_words ic alts repl None 0 s"

section \<open>AddressNormalizer (utils/address\_normalizer.py)\<close>

definition STATE_ABBREV :: "(string \<times> string) list" where
  "STATE_ABBREV =
    [(''alabama'', ''AL''), (''alaska'', ''AK''), (''arizona'', ''AZ''), (''arkansas'', ''AR''),
     (''california'', ''CA''), (''colorado'', ''CO''), (''connecticut'', ''CT''),
     (''delaware'', ''DE''), (''florida'', ''FL''), (''georgia'', ''GA''), (''hawaii'', ''HI''),
     (''idaho'', ''ID''), (''illinois'', ''IL''), (''indiana'', ''IN''), (''iowa'', ''IA''),
     (''kansas'', ''KS''), (''kentucky'', ''KY''), (''louisiana'', ''LA''), (''maine'', ''ME''),
     (''maryland'', ''MD''), (''massachusetts'', ''MA''), (''michigan'', ''MI''),
     (''minnesota'', ''MN''), (''mississippi'', ''MS''), (''missouri'', ''MO''),
     (''montana'', ''MT''), (''nebraska'', ''NE''), (''nevada'', ''NV''),
     (''new hampshire'', ''NH''), (''new jersey'', ''NJ''), (''new mexico'', ''NM''),
     (''new york'', ''NY''), (''north carolina'', ''NC''), (''north dakota'', ''ND''),
     (''ohio'', ''OH''), (''oklahoma'', ''OK''), (''oregon'', ''OR''), (''pennsylvania'', ''PA''),
     (''rhode island'', ''RI''), (''south carolina'', ''SC''), (''south dakota'', ''SD''),
     (''tennessee'', ''TN''), (''texas'', ''TX''), (''utah'', ''UT''), (''vermont'', ''VT''),
     (''virginia'', ''VA''), (''washington'', ''WA''), (''west virginia'', ''WV''),
     (''wisconsin'', ''WI''), (''wyoming'', ''WY''), (''district of columbia'', ''DC'')]"

text \<open>The dict literal names the key \<open>'way'\<close> twice; a dict keeps one entry for it, at the
  place of the first.  The list is in the dict's iteration order.\<close>

definition STREET_TYPES :: "(string \<times> string) list" where
  "STREET_TYPES =
    [(''street'', ''St''), (''st'', ''St''), (''avenue'', ''Ave''), (''ave'', ''Ave''),
     (''road'', ''Rd''), (''rd'', ''Rd''), (''drive'', ''Dr''), (''dr'', ''Dr''),
     (''boulevard'', ''Blvd''), (''blvd'', ''Blvd''), (''court'', ''Ct''), (''ct'', ''Ct''),
     (''lane'', ''Ln''), (''ln'', ''Ln''), (''way'', ''Way''),
     (''circle'', ''Cir''), (''cir'', ''Cir''), (''trail'', ''Trl''), (''trl'', ''Trl''),
     (''parkway'', ''Pkwy''), (''pkwy'', ''Pkwy''), (''plaza'', ''Plz''), (''plz'', ''Plz''),
     (''terrace'', ''Ter''), (''ter'', ''Ter''), (''highway'', ''Hwy''), (''hwy'', ''Hwy'')]"

definition DIRECTIONS :: "string list" where
  "DIRECTIONS = [''North'', ''South'', ''East'', ''West'',
                 ''Northeast'', ''Northwest'', ''Southeast'', ''Southwest'']"

text \<open>The loop over \<open>STREET_TYPES.items()\<close>: one case-insensitive whole-word substitution
  per entry, each applied to the result of the one before.\<close>

fun sub_street_types :: "(string \<times> string) list \<Rightarrow> string \<Rightarrow> string" where
  "sub_street_types [] street = street"
| "sub_street_types ((full, abbrev) # rest) street =
     sub_street_types rest (re_sub True [full] (\<lambda>m. abbrev) street)"

definition normalize_street :: "string \<Rightarrow> string" where
  "normalize_street street =
     (if street = [] then []
      else strip (sub_street_types STREET_TYPES
                   (re_sub False DIRECTIONS (\<lambda>m. take 1 m)
                     (title (join '' '' (split street))))))"


definition normalize_state :: "string \<Rightarrow> string" where
  "normalize_state state =
     (if state = [] then []
      else let st = lower (strip state) in
        if length st = 2 \<and> isupper st then upper st
        else (case map_of STATE_ABBREV st of
                Some abbrev \<Rightarrow> abbrev
              | None \<Rightarrow> upper st))"


text \<open>The dict that \<open>normalize_address\<close> returns has exactly these four keys.\<close>

record address =
  street :: string
  city :: string
  state :: string
  zip_code :: string



section \<open>Retry and throttling (utils/rate\_limiter.py)\<close>

text \<open>Exceptions are values; each carries the text that \<open>str(e)\<close> gives.  \<open>HTTPError\<close> is the
  exception of \<open>response.raise_for_status()\<close> and carries the response status.\<close>

datatype exn =
    ConnectionError string
  | Timeout string
  | HTTPError int string
  | OtherError string

fun str_exn :: "exn \<Rightarrow> string" where
  "str_exn (ConnectionError m) = m"
| "str_exn (Timeout m) = m"
| "str_exn (HTTPError code m) = m"
| "str_exn (OtherError m) = m"

record RetryConfig =
  max_retries :: int
  backoff_factor :: real
  retry_on_status :: "int list"

text \<open>\<open>RetryConfig.__init__\<close>: a missing or empty status list is replaced by the default
  one (\<open>retry_on_status or [...]\<close>).\<close>

definition RetryConfig_init :: "int \<Rightarrow> real \<Rightarrow> int list option \<Rightarrow> RetryConfig" where
  "RetryConfig_init mr bf ros =
     \<lparr>max_retries = mr, backoff_factor = bf,
      retry_on_status = (case ros of None \<Rightarrow> [408, 429, 500, 502, 503, 504]
                         | Some l \<Rightarrow> if l = [] then [408, 429, 500, 502, 503, 504] else l)\<rparr>"

definition RetryConfig_default :: RetryConfig where
  "RetryConfig_default = RetryConfig_init 3 2 None"

text \<open>What the wrapper does, in order: calls of the wrapped function (numbered from 0) and
  \<open>time.sleep\<close> calls with their duration.\<close>

datatype retry_event = Call nat | Sleep real

text \<open>How the wrapper ends: it returns the function's value, raises, or falls off the end of
  its body (Python then returns \<open>None\<close>), which happens when the loop never runs.\<close>

datatype 'a outcome = Returned 'a | Raised exn | ReturnedNone

text \<open>The wrapped function is given by the result of each of its calls: \<open>func n\<close> is what call
  number \<open>n\<close> returns (\<open>Inr\<close>) or raises (\<open>Inl\<close>).  The loop is
  \<open>for attempt in range(max_retries + 1)\<close>; \<open>todo\<close> counts the iterations left,
  \<open>last_exception\<close> is the variable of that name.  The \<open>except\<close> clause catches every
  \<open>Exception\<close> and never looks at \<open>retry_on_status\<close>.\<close>

fun retry_loop ::
  "RetryConfig \<Rightarrow> (nat \<Rightarrow> exn + 'a) \<Rightarrow> nat \<Rightarrow> nat \<Rightarrow> exn option \<Rightarrow> retry_event list
     \<Rightarrow> 'a outcome \<times> retry_event list" where
  "retry_loop config func attempt 0 last_exception trace =
     (case last_exception of Some e \<Rightarrow> (Raised e, trace) | None \<Rightarrow> (ReturnedNone, trace))"
| "retry_loop config func attempt (Suc todo) last_exception trace =
     (case func attempt of
        Inr v \<Rightarrow> (Returned v, trace @ [Call attempt])
      | Inl e \<Rightarrow>
          if int attempt < max_retries config
          then retry_loop config func (attempt + 1) todo (Some e)
                 (trace @ [Call attempt, Sleep (backoff_factor config ^ attempt)])
          else retry_loop config func (attempt + 1) todo (Some e) (trace @ [Call attempt]))"

definition retry_with_backoff ::
  "RetryConfig \<Rightarrow> (nat \<Rightarrow> exn + 'a) \<Rightarrow> 'a outcome \<times> retry_event list" where
  "retry_with_backoff config func =
     retry_loop config func 0 (nat (max_retries config + 1)) None []"

text \<open>The classification the specification describes, which no code of the wrapper computes:
  a failure is retryable when it is a network error, a timeout, or a response status in the
  configured set.\<close>

fun spec_retryable :: "RetryConfig \<Rightarrow> exn \<Rightarrow> bool" where
  "spec_retryable config (ConnectionError m) = True"
| "spec_retryable config (Timeout m) = True"
| "spec_retryable config (HTTPError code m) = (code \<in> set (retry_on_status config))"
| "spec_retryable config (OtherError m) = False"

subsection \<open>RequestThrottler\<close>

text \<open>Instants are the values of \<open>time.time()\<close>, taken as real numbers of seconds; every
  operation gets the value its own call of \<open>time.time()\<close> returns as the argument \<open>now\<close>.\<close>

record RequestThrottler =
  max_requests_per_minute :: int
  request_times :: "string \<rightharpoonup> real list"

definition RequestThrottler_init :: "int \<Rightarrow> RequestThrottler" where
  "RequestThrottler_init cap = \<lparr>max_requests_per_minute = cap, request_times = Map.empty\<rparr>"

definition times_of :: "RequestThrottler \<Rightarrow> string \<Rightarrow> real list" where
  "times_of t domain = (case request_times t domain of None \<Rightarrow> [] | Some ts \<Rightarrow> ts)"

definition should_throttle :: "real \<Rightarrow> string \<Rightarrow> RequestThrottler \<Rightarrow> RequestThrottler \<times> bool" where
  "should_throttle now domain t =
     (let cutoff = now - 60;
          kept = filter (\<lambda>x. x > cutoff) (times_of t domain)
      in (t\<lparr>request_times := (request_times t)(domain \<mapsto> kept)\<rparr>,
          int (length kept) \<ge> max_requests_per_minute t))"

definition record_request :: "real \<Rightarrow> string \<Rightarrow> RequestThrottler \<Rightarrow> RequestThrottler" where
  "record_request now domain t =
     t\<lparr>request_times := (request_times t)(domain \<mapsto> times_of t domain @ [now])\<rparr>"

text \<open>A history of calls on one throttler, each with its domain and its clock reading.\<close>

datatype throttler_call = RecordRequest string real | ShouldThrottle string real

fun call_time :: "throttler_call \<Rightarrow> real" where
  "call_time (RecordRequest domain now) = now"
| "call_time (ShouldThrottle domain now) = now"

fun run_calls :: "RequestThrottler \<Rightarrow> throttler_call list \<Rightarrow> RequestThrottler" where
  "run_calls t [] = t"
| "run_calls t (RecordRequest domain now # cs) = run_calls (record_request now domain t) cs"
| "run_calls t (ShouldThrottle domain now # cs) = run_calls (fst (should_throttle now domain t)) cs"

text \<open>The instants recorded for a domain in a history, in order.\<close>

fun recorded :: "string \<Rightarrow> throttler_call list \<Rightarrow> real list" where
  "recorded domain [] = []"
| "recorded domain (RecordRequest d now # cs) =
     (if d = domain then now # recorded domain cs else recorded domain cs)"
| "recorded domain (ShouldThrottle d now # cs) = recorded domain cs"

text \<open>The recorded instants inside the trailing 60-second window at \<open>now\<close>.\<close>

definition in_window :: "real \<Rightarrow> real list \<Rightarrow> real list" where
  "in_window now ts = filter (\<lambda>x. x > now - 60) ts"

section \<open>FSBODatabase (storage/database.py)\<close>

text \<open>A listing dict as \<open>bulk_add_listings\<close> reads it: the keys read with \<open>listing[...]\<close>
  are present and hold strings, the keys read with \<open>listing.get(...)\<close> may be absent
  (\<open>None\<close>).\<close>

record listing = address +
  listing_url :: "string option"
  source_website :: string
  listing_notes :: "string option"

text \<open>A row of the table \<open>listings\<close>.  Timestamps are the values of \<open>CURRENT_TIMESTAMP\<close>, taken
  as numbers of seconds.\<close>

record listing_row = listing +
  row_id :: nat
  scraped_at :: nat
  last_updated :: nat
  listing_hash :: string
  is_exported :: bool

text \<open>A row of the table \<open>scrape_history\<close>.\<close>

record session_row =
  session_id :: nat
  session_source_website :: string
  scrape_start :: nat
  scrape_end :: nat
  listings_found :: nat
  listings_new :: nat
  listings_duplicates :: nat
  errors :: nat
  status :: string
  error_message :: "string option"

text \<open>The database: the two tables in insertion order, and for each the largest row id ever
  given out (both ids are \<open>AUTOINCREMENT\<close>, so a deleted id is not used again).\<close>

record database =
  listings :: "listing_row list"
  scrape_history :: "session_row list"
  listings_seq :: nat
  history_seq :: nat

definition init_database :: database where
  "init_database = \<lparr>listings = [], scrape_history = [], listings_seq = 0, history_seq = 0\<rparr>"

text \<open>\<open>_generate_hash\<close>.  \<open>md5\<close> stands for \<open>hashlib.md5(s.encode()).hexdigest()\<close>, a library
  function that is a parameter here.\<close>

definition generate_hash ::
  "(string \<Rightarrow> string) \<Rightarrow> string \<Rightarrow> string \<Rightarrow> string \<Rightarrow> string \<Rightarrow> string" where
  "generate_hash md5 st ci sta zi = md5 (lower st @ lower ci @ lower sta @ zi)"



text \<open>\<open>add_listing\<close>: the \<open>INSERT\<close> violates the \<open>UNIQUE\<close> constraint of \<open>listing_hash\<close> exactly
  when a row with that hash is stored; the \<open>IntegrityError\<close> is caught and \<open>None\<close> returned.
  Otherwise the row gets the next id, both timestamps default to \<open>now\<close> and \<open>is_exported\<close> to 0.\<close>

definition add_listing ::
  "(string \<Rightarrow> string) \<Rightarrow> nat \<Rightarrow> database \<Rightarrow> listing \<Rightarrow> database \<times> nat option" where
  "add_listing md5 now db l =
     (let h = generate_hash md5 (street l) (city l) (state l) (zip_code l) in
      if h \<in> set (map listing_hash (listings db)) then (db, None)
      else
        let listing_id = listings_seq db + 1;
            row = \<lparr>street = street l, city = city l, state = state l, zip_code = zip_code l,
                   listing_url = listing_url l, source_website = source_website l,
                   listing_notes = listing_notes l, row_id = listing_id, scraped_at = now, last_updated = now,
                   listing_hash = h, is_exported = False\<rparr>
        in (db\<lparr>listings := listings db @ [row], listings_seq := listing_id\<rparr>, Some listing_id))"

text \<open>The loop of \<open>bulk_add_listings\<close>; \<open>clock k\<close> is the value of \<open>CURRENT_TIMESTAMP\<close> at
  the insert of iteration \<open>k\<close> (each \<open>add_listing\<close> opens its own connection).\<close>

fun bulk_loop ::
  "(string \<Rightarrow> string) \<Rightarrow> (nat \<Rightarrow> nat) \<Rightarrow> nat \<Rightarrow> database \<Rightarrow> nat \<Rightarrow> nat \<Rightarrow> listing list
     \<Rightarrow> database \<times> nat \<times> nat" where
  "bulk_loop md5 clock k db new_count duplicate_count [] = (db, new_count, duplicate_count)"
| "bulk_loop md5 clock k db new_count duplicate_count (l # ls) =
     (case add_listing md5 (clock k) db l of
        (db', Some listing_id) \<Rightarrow> bulk_loop md5 clock (k + 1) db' (new_count + 1) duplicate_count ls
      | (db', None) \<Rightarrow> bulk_loop md5 clock (k + 1) db' new_count (duplicate_count + 1) ls)"

definition bulk_add_listings ::
  "(string \<Rightarrow> string) \<Rightarrow> (nat \<Rightarrow> nat) \<Rightarrow> database \<Rightarrow> listing list \<Rightarrow> database \<times> nat \<times> nat" where
  "bulk_add_listings md5 clock db ls = bulk_loop md5 clock 0 db 0 0 ls"

text \<open>\<open>get_listings\<close>.  An absent or empty \<open>source\<close> does not filter; an absent or zero
  \<open>limit\<close> does not limit; SQLite reads a negative \<open>LIMIT\<close> as no limit and a negative
  \<open>OFFSET\<close> as 0.  Rows with equal \<open>scraped_at\<close> are kept in insertion order.\<close>

definition get_listings ::
  "database \<Rightarrow> int option \<Rightarrow> int \<Rightarrow> string option \<Rightarrow> bool \<Rightarrow> listing_row list" where
  "get_listings db limit offset source exported =
     (let by_source = (case source of None \<Rightarrow> listings db
                        | Some src \<Rightarrow> if src = [] then listings db
                                      else filter (\<lambda>r. source_website r = src) (listings db));
          by_flag = filter (\<lambda>r. is_exported r = exported) by_source;
          ordered = sort_key (\<lambda>r. - int (scraped_at r)) by_flag
      in case limit of
           None \<Rightarrow> ordered
         | Some n \<Rightarrow> if n = 0 then ordered
                     else if n < 0 then drop (nat offset) ordered
                     else take (nat n) (drop (nat offset) ordered))"

text \<open>\<open>mark_as_exported\<close>: one \<open>UPDATE ... WHERE id = ?\<close> per element of \<open>listing_ids\<close>, all on
  one connection; \<open>now\<close> is the \<open>CURRENT_TIMESTAMP\<close> they read.\<close>

definition update_exported :: "nat \<Rightarrow> nat \<Rightarrow> listing_row \<Rightarrow> listing_row" where
  "update_exported now listing_id r =
     (if row_id r = listing_id then r\<lparr>is_exported := True, last_updated := now\<rparr> else r)"

fun mark_as_exported :: "nat \<Rightarrow> database \<Rightarrow> nat list \<Rightarrow> database" where
  "mark_as_exported now db [] = db"
| "mark_as_exported now db (listing_id # listing_ids) =
     mark_as_exported now (db\<lparr>listings := map (update_exported now listing_id) (listings db)\<rparr>)
       listing_ids"

definition record_scrape_session ::
  "nat \<Rightarrow> database \<Rightarrow> string \<Rightarrow> nat \<Rightarrow> nat \<Rightarrow> nat \<Rightarrow> nat \<Rightarrow> string option \<Rightarrow> string
     \<Rightarrow> database \<times> nat" where
  "record_scrape_session now db source found new dups errs message stat =
     (let sid = history_seq db + 1;
          row = \<lparr>session_id = sid, session_source_website = source, scrape_start = now,
                 scrape_end = now, listings_found = found, listings_new = new,
                 listings_duplicates = dups, errors = errs, status = stat,
                 error_message = message\<rparr>
      in (db\<lparr>scrape_history := scrape_history db @ [row], history_seq := sid\<rparr>, sid))"

definition clear_all_data :: "database \<Rightarrow> database" where
  "clear_all_data db = db\<lparr>listings := [], scrape_history := []\<rparr>"

subsection \<open>CSV export\<close>

text \<open>A cell of the CSV file, before \<open>csv.DictWriter\<close> renders it: an integer, a text, or
  \<open>None\<close> (rendered as the empty field).  A file is its list of rows; the file system maps a
  path to the file written there.  The database file is not among the paths written.\<close>

datatype cell = CInt nat | CText string | CNone

definition fieldnames :: "string list" where
  "fieldnames = [''id'', ''street'', ''city'', ''state'', ''zip_code'',
                 ''listing_url'', ''source_website'', ''scraped_at'']"

definition csv_row :: "listing_row \<Rightarrow> cell list" where
  "csv_row r =
     [CInt (row_id r), CText (street r), CText (city r), CText (state r), CText (zip_code r),
      (case listing_url r of None \<Rightarrow> CNone | Some u \<Rightarrow> CText u),
      CText (source_website r), CInt (scraped_at r)]"

definition export_to_csv ::
  "database \<Rightarrow> (string \<rightharpoonup> cell list list) \<Rightarrow> string \<Rightarrow> string option \<Rightarrow> bool
     \<Rightarrow> database \<times> (string \<rightharpoonup> cell list list)" where
  "export_to_csv db files output_path source exported_only =
     (let ls = get_listings db None 0 source exported_only in
      if ls = [] then (db, files)
      else (db, files(output_path \<mapsto> map CText fieldnames # map csv_row ls)))"

section \<open>BaseScraper (scrapers/base\_scraper.py)\<close>








section \<open>The run for one source (main.py, the body of the loop in \<open>scrape\<close>)\<close>

text \<open>A scraper object as the loop uses it: its \<open>source_name\<close>, the result of \<open>scrape()\<close>
  and whether \<open>close()\<close> returns (\<open>None\<close>) or raises.\<close>

record scraper =
  source_name :: string
  scrape :: "exn + listing list"
  close :: "exn option"


text \<open>The \<open>except Exception\<close> branch: one session of status \<open>failed\<close> under the registry key.\<close>

definition record_failed :: "nat \<Rightarrow> database \<Rightarrow> string \<Rightarrow> exn \<Rightarrow> database" where
  "record_failed now db scraper_name e =
     fst (record_scrape_session now db scraper_name 0 0 0 1 (Some (str_exn e)) ''failed'')"

text \<open>The \<open>try\<close> statement of lines 86 to 176 for one enabled source.  \<open>made\<close> is the result of
  constructing the scraper; \<open>clock\<close> times the inserts, \<open>now\<close> the session written in the
  \<open>try\<close> block and \<open>now_failed\<close> the one written in the \<open>except\<close> block.  The result is the
  database and the amounts added to \<open>total_new\<close>, \<open>total_duplicates\<close>, \<open>total_errors\<close>.\<close>

definition scrape_source ::
  "(string \<Rightarrow> string) \<Rightarrow> (nat \<Rightarrow> nat) \<Rightarrow> nat \<Rightarrow> nat \<Rightarrow> database \<Rightarrow> string \<Rightarrow> exn + scraper
     \<Rightarrow> database \<times> nat \<times> nat \<times> nat" where
  "scrape_source md5 clock now now_failed db scraper_name made =
     (case made of
        Inl e \<Rightarrow> (record_failed now_failed db scraper_name e, 0, 0, 1)
      | Inr sc \<Rightarrow>
          (case scrape sc of
             Inl e \<Rightarrow> (record_failed now_failed db scraper_name e, 0, 0, 1)
           | Inr ls \<Rightarrow>
               (case bulk_add_listings md5 clock db ls of
                  (db1, new_count, dup_count) \<Rightarrow>
                    let db2 = fst (record_scrape_session now db1 (source_name sc) (length ls)
                                     new_count dup_count 0 None ''completed'')
                    in (case close sc of
                          None \<Rightarrow> (db2, new_count, dup_count, 0)
                        | Some e \<Rightarrow>
                            (record_failed now_failed db2 scraper_name e,
                             new_count, dup_count, 1)))))"

text \<open>The session rows that a run added to the history.\<close>

definition sessions_written :: "database \<Rightarrow> database \<Rightarrow> session_row list" where
  "sessions_written db db' = drop (length (scrape_history db)) (scrape_history db')"

section \<open>Vocabulary of the statements and example inputs\<close>













section \<open>Frame properties of the database operations\<close>

lemma history_add_listing:
  "scrape_history (fst (add_listing md5 now db l)) = scrape_history db"
  by (simp add: add_listing_def Let_def)

lemma history_bulk_loop:
  "scrape_history (fst (bulk_loop md5 clock k db n m ls)) = scrape_history db"
  by (induction ls arbitrary: db k n m) (auto simp: add_listing_def Let_def)

lemma history_mark_as_exported:
  "scrape_history (mark_as_exported now db ids) = scrape_history db"
  by (induction ids arbitrary: db) simp_all

lemma history_record_scrape_session:
  "scrape_history (fst (record_scrape_session now db src found new dups errs msg stat))
     = scrape_history db @
       [\<lparr>session_id = history_seq db + 1, session_source_website = src, scrape_start = now,
         scrape_end = now, listings_found = found, listings_new = new,
         listings_duplicates = dups, errors = errs, status = stat, error_message = msg\<rparr>]"
  by (simp add: record_scrape_session_def Let_def)

lemma export_to_csv_database:
  "fst (export_to_csv db files output_path source exported_only) = db"
  by (simp add: export_to_csv_def Let_def)

lemma listings_add_listing:
  "take (length (listings db)) (listings (fst (add_listing md5 now db l))) = listings db"
  by (simp add: add_listing_def Let_def)

lemma listings_record_scrape_session:
  "listings (fst (record_scrape_session now db src found new dups errs msg stat)) = listings db"
  by (simp add: record_scrape_session_def Let_def)

lemma listings_mark_as_exported:
  "listings (mark_as_exported now db ids)
     = map (\<lambda>r. if row_id r \<in> set ids then r\<lparr>is_exported := True, last_updated := now\<rparr> else r)
         (listings db)"
proof (induction ids arbitrary: db)
  case Nil
  show ?case by simp
next
  case (Cons i ids)
  have step: "(if row_id (update_exported now i r) \<in> set ids
               then (update_exported now i r)\<lparr>is_exported := True, last_updated := now\<rparr>
               else update_exported now i r)
              = (if row_id r \<in> set (i # ids)
                 then r\<lparr>is_exported := True, last_updated := now\<rparr> else r)" for r
    by (simp add: update_exported_def)
  show ?case
    by (simp only: mark_as_exported.simps Cons.IH) (simp add: step)
qed

section \<open>Export and marking\<close>

text \<open>
  Claim C9.  Exporting to CSV returns the database it was given: every stored row keeps
  \<open>is_exported\<close>, \<open>last_updated\<close> and all its other fields, whatever the filters and
  the output path.  The operation \<open>mark_as_exported\<close> is the one that changes stored rows:
  it sets \<open>is_exported\<close> and puts the current timestamp into \<open>last_updated\<close> on the rows
  whose id is listed, and leaves the other rows as they are.  Inserting a listing and
  recording a session keep every row that was stored.
\<close>

theorem export_to_csv_modifies_no_listing:
  "fst (export_to_csv db files output_path source exported_only) = db
   \<and> listings (mark_as_exported now db ids)
       = map (\<lambda>r. if row_id r \<in> set ids then r\<lparr>is_exported := True, last_updated := now\<rparr>
                   else r) (listings db)
   \<and> take (length (listings db)) (listings (fst (add_listing md5 now db l))) = listings db
   \<and> listings (fst (record_scrape_session now db src found new dups errs msg stat))
       = listings db"
  by (simp only: export_to_csv_database listings_mark_as_exported listings_add_listing
        listings_record_scrape_session)

section \<open>Bulk clear\<close>

text \<open>
  Claim C10.  \<open>clear_all_data\<close> empties the session history as well as the listings.  No
  other operation deletes or rewrites a session: adding listings, marking and exporting
  leave the history as it is, and recording a session appends one row behind the old ones.
\<close>

theorem clear_all_data_deletes_history:
  "listings (clear_all_data db) = [] \<and> scrape_history (clear_all_data db) = []
   \<and> scrape_history (fst (add_listing md5 now db l)) = scrape_history db
   \<and> scrape_history (fst (bulk_add_listings md5 clock db ls)) = scrape_history db
   \<and> scrape_history (mark_as_exported now db ids) = scrape_history db
   \<and> scrape_history (fst (export_to_csv db files output_path source exported_only))
       = scrape_history db
   \<and> take (length (scrape_history db))
        (scrape_history (fst (record_scrape_session now db src found new dups errs msg stat)))
       = scrape_history db"
  by (simp add: clear_all_data_def history_add_listing bulk_add_listings_def history_bulk_loop
        history_mark_as_exported export_to_csv_database history_record_scrape_session)

section \<open>The request throttler\<close>

lemma run_calls_append: "run_calls t (cs @ ds) = run_calls (run_calls t cs) ds"
  by (induction t cs rule: run_calls.induct) simp_all

lemma recorded_append: "recorded d (cs @ ds) = recorded d cs @ recorded d ds"
  by (induction d cs rule: recorded.induct) simp_all

lemma in_window_prune:
  "tm \<le> now \<Longrightarrow> in_window now (filter (\<lambda>x. x > tm - 60) ts) = in_window now ts"
  by (induction ts) (auto simp: in_window_def)

lemma cap_run_calls: "max_requests_per_minute (run_calls t cs) = max_requests_per_minute t"
  by (induction t cs rule: run_calls.induct)
     (simp_all add: record_request_def should_throttle_def Let_def)

text \<open>Pruning at an earlier clock reading removes only instants that have left the window
  of every later reading, so the stored list and the full record agree inside the window.\<close>

lemma window_run_calls:
  "\<forall>c \<in> set cs. call_time c \<le> now \<Longrightarrow>
   in_window now (times_of (run_calls (RequestThrottler_init cap) cs) d)
     = in_window now (recorded d cs)"
proof (induction cs rule: rev_induct)
  case Nil
  show ?case by (simp add: times_of_def RequestThrottler_init_def)
next
  case (snoc c cs)
  then have IH: "in_window now (times_of (run_calls (RequestThrottler_init cap) cs) d)
                   = in_window now (recorded d cs)"
    and le: "call_time c \<le> now" by simp_all
  show ?case
  proof (cases c)
    case (RecordRequest d' tm)
    then show ?thesis using IH
      by (simp add: run_calls_append recorded_append record_request_def times_of_def
            in_window_def)
  next
    case (ShouldThrottle d' tm)
    then show ?thesis
      using IH in_window_prune[OF le, of "times_of (run_calls (RequestThrottler_init cap) cs) d"]
      by (cases "d' = d")
         (simp_all add: run_calls_append recorded_append should_throttle_def times_of_def Let_def)
  qed
qed

text \<open>
  Claim C8.  Take a throttler created with a cap, any history of \<open>record_request\<close> and
  \<open>should_throttle\<close> calls on it, any domain, and a call of \<open>should_throttle\<close> whose clock
  reading \<open>now\<close> is not before the readings of the earlier calls.  The call returns true
  exactly when the number of instants recorded for the domain inside the trailing 60-second
  window is at least the cap.  So it is false while fewer than the cap are in the window and
  true once the cap-th is; and with a positive cap it is false again as soon as every recorded
  instant is at least 60 seconds old.
\<close>

theorem should_throttle_trailing_window:
  "(\<forall>c \<in> set calls. call_time c \<le> now) \<longrightarrow>
     (snd (should_throttle now domain (run_calls (RequestThrottler_init cap) calls))
        \<longleftrightarrow> cap \<le> int (length (in_window now (recorded domain calls))))
     \<and> (0 < cap \<and> (\<forall>x \<in> set (recorded domain calls). x + 60 \<le> now)
          \<longrightarrow> \<not> snd (should_throttle now domain (run_calls (RequestThrottler_init cap) calls)))"
proof (intro impI)
  assume le: "\<forall>c \<in> set calls. call_time c \<le> now"
  let ?t = "run_calls (RequestThrottler_init cap) calls"
  have cap: "max_requests_per_minute ?t = cap"
    by (simp add: cap_run_calls RequestThrottler_init_def)
  have "snd (should_throttle now domain ?t)
          \<longleftrightarrow> cap \<le> int (length (in_window now (times_of ?t domain)))"
    by (simp add: should_throttle_def Let_def cap in_window_def)
  then have main: "snd (should_throttle now domain ?t)
          \<longleftrightarrow> cap \<le> int (length (in_window now (recorded domain calls)))"
    by (simp only: window_run_calls[OF le])
  have "in_window now (recorded domain calls) = []"
    if "\<forall>x \<in> set (recorded domain calls). x + 60 \<le> now"
    using that by (auto simp: in_window_def filter_empty_conv)
  with main show
    "(snd (should_throttle now domain ?t)
        \<longleftrightarrow> cap \<le> int (length (in_window now (recorded domain calls))))
     \<and> (0 < cap \<and> (\<forall>x \<in> set (recorded domain calls). x + 60 \<le> now)
          \<longrightarrow> \<not> snd (should_throttle now domain ?t))"
    by auto
qed

text \<open>With cap 2: false after the first request, true once the second is recorded within
  the minute, false again 60 seconds after the last one.\<close>

theorem should_throttle_trailing_window_witness:
  "call_time (RecordRequest ''example.com'' 0) \<le> 2
   \<and> call_time (ShouldThrottle ''example.com'' 1) \<le> 2
   \<and> call_time (RecordRequest ''example.com'' 2) \<le> 2
   \<and> \<not> snd (should_throttle 1 ''example.com''
              (run_calls (RequestThrottler_init 2) [RecordRequest ''example.com'' 0]))
   \<and> snd (should_throttle 2 ''example.com'' (run_calls (RequestThrottler_init 2)
        [RecordRequest ''example.com'' 0, ShouldThrottle ''example.com'' 1,
         RecordRequest ''example.com'' 2]))
   \<and> \<not> snd (should_throttle 62 ''example.com'' (run_calls (RequestThrottler_init 2)
        [RecordRequest ''example.com'' 0, ShouldThrottle ''example.com'' 1,
         RecordRequest ''example.com'' 2]))"
  using should_throttle_trailing_window[of "[RecordRequest ''example.com'' 0]" 1
          "''example.com''" 2]
    should_throttle_trailing_window[of "[RecordRequest ''example.com'' 0,
          ShouldThrottle ''example.com'' 1, RecordRequest ''example.com'' 2]" 2
          "''example.com''" 2]
    should_throttle_trailing_window[of "[RecordRequest ''example.com'' 0,
          ShouldThrottle ''example.com'' 1, RecordRequest ''example.com'' 2]" 62
          "''example.com''" 2]
  by (simp add: in_window_def)

section \<open>The retry wrapper\<close>

text \<open>
  Claim C5.  The claim is that a failure that is not retryable is propagated at once, with
  no further attempt and no sleep.  The wrapper retries every exception: with the default
  configuration, a function that raises the HTTP error 404 on every call (a status outside
  \<open>retry_on_status\<close>) is called four times, with sleeps of 1, 2 and 4 seconds in between,
  before the error is raised.
\<close>

theorem retry_with_backoff_retries_every_failure:
  "\<not> spec_retryable RetryConfig_default (HTTPError 404 ''Not Found'')
   \<and> retry_with_backoff RetryConfig_default
        (\<lambda>n. Inl (HTTPError 404 ''Not Found'') :: exn + string)
      = (Raised (HTTPError 404 ''Not Found''),
         [Call 0, Sleep 1, Call 1, Sleep 2, Call 2, Sleep 4, Call 3])"
  by (simp add: retry_with_backoff_def RetryConfig_default_def RetryConfig_init_def
        eval_nat_numeral)

section \<open>Street normalization\<close>

text \<open>
  Claim C6.  The claim is that a full directional word becomes its one- or two-letter
  abbreviation, \<open>Northeast\<close> becoming \<open>NE\<close>.  The replacement keeps the first letter of the
  matched word only, so \<open>Northeast\<close> becomes \<open>N\<close> and \<open>southwest\<close> becomes \<open>S\<close>; the
  whitespace, the title case and the street types come out as claimed.
\<close>

theorem normalize_street_compound_direction:
  "normalize_street ''100 Northeast Main Street'' = ''100 N Main St''
   \<and> normalize_street ''7  southwest oak avenue'' = ''7 S Oak Ave''"
  by code_simp

section \<open>Sessions written by a run\<close>

lemma history_bulk_add_listings:
  "bulk_add_listings md5 clock db ls = (db1, new_count, dup_count)
     \<Longrightarrow> scrape_history db1 = scrape_history db"
  using history_bulk_loop[of md5 clock 0 db 0 0 ls] by (simp add: bulk_add_listings_def)

text \<open>The number of sessions a run writes: one, except that a run whose \<open>close()\<close> raises
  after the session of the \<open>try\<close> block was recorded writes a second one.\<close>

lemma length_sessions_written:
  "length (sessions_written db (fst (scrape_source md5 clock now now_failed db name made)))
     = (case made of
          Inl e \<Rightarrow> 1
        | Inr sc \<Rightarrow> (case scrape sc of
                       Inl e \<Rightarrow> 1
                     | Inr ls \<Rightarrow> (case close sc of None \<Rightarrow> 1 | Some e \<Rightarrow> 2)))"
  by (auto simp: sessions_written_def scrape_source_def record_failed_def Let_def
        history_record_scrape_session
      split: sum.splits option.splits prod.splits dest!: history_bulk_add_listings)

text \<open>
  Claim C3.  The claim is that a run writes exactly one session record.  \<open>scraper.close()\<close>
  is called inside the \<open>try\<close> block after the session was recorded: when it raises, the
  \<open>except\<close> branch records a second session.  Here a scraper finds no listings and its
  \<open>close()\<close> raises; the run leaves a \<open>completed\<close> and a \<open>failed\<close> session.
\<close>

theorem scrape_source_close_failure_two_sessions:
  "map status (sessions_written init_database
     (fst (scrape_source (\<lambda>s. s) (\<lambda>k. 0) 1 2 init_database ''fsbo_com''
        (Inr \<lparr>source_name = ''FSBO.com'', scrape = Inr [],
              close = Some (OtherError ''close failed'')\<rparr>))))
   = [''completed'', ''failed'']"
  by (simp add: sessions_written_def scrape_source_def bulk_add_listings_def init_database_def
        record_scrape_session_def record_failed_def Let_def)

section \<open>Bulk insertion\<close>











section \<open>Partial failure of a run\<close>








section \<open>Case and whitespace of characters\<close>



lemma to_upper_to_lower_all: "\<forall>c. to_upper (to_lower c) = to_upper c"
  by code_simp

lemma to_upper_to_lower: "to_upper (to_lower c) = to_upper c"
  using to_upper_to_lower_all by blast

lemma to_lower_sharp_s_all: "\<forall>c. (to_lower c = CHR 0xDF) = (c = CHR 0xDF)"
  by code_simp

lemma to_lower_sharp_s: "to_lower c = CHR 0xDF \<longleftrightarrow> c = CHR 0xDF"
  using to_lower_sharp_s_all by blast

lemma upper_chars_to_lower: "upper_chars (to_lower c) = upper_chars c"
  by (simp add: upper_chars_def to_upper_to_lower to_lower_sharp_s)


lemma is_space_to_lower_all: "\<forall>c. is_space (to_lower c) = is_space c"
  by code_simp

lemma is_space_to_lower: "is_space (to_lower c) = is_space c"
  using is_space_to_lower_all by blast

lemma is_space_to_upper_all: "\<forall>c. is_space (to_upper c) = is_space c"
  by code_simp

lemma is_space_to_upper: "is_space (to_upper c) = is_space c"
  using is_space_to_upper_all by blast

lemma to_upper_space_all: "\<forall>c. is_space c \<longrightarrow> to_upper c = c"
  by code_simp

lemma to_upper_space: "is_space c \<Longrightarrow> to_upper c = c"
  using to_upper_space_all by blast

lemma not_space_letters: "\<not> is_space (CHR 0xDF)" "\<not> is_space (CHR ''S'')"
  by code_simp+

lemma is_cased_to_lower_all: "\<forall>c. is_cased (to_lower c) = is_cased c"
  by code_simp

lemma is_cased_to_lower: "is_cased (to_lower c) = is_cased c"
  using is_cased_to_lower_all by blast

lemma is_cased_lower_is_lower_all: "\<forall>c. is_cased c \<longrightarrow> is_lower (to_lower c)"
  by code_simp

lemma is_cased_lower_is_lower: "is_cased c \<Longrightarrow> is_lower (to_lower c)"
  using is_cased_lower_is_lower_all by blast


lemma not_isupper_lower: "\<not> isupper (lower s)"
proof
  assume a: "isupper (lower s)"
  then obtain c where c: "c \<in> set s" "is_cased (to_lower c)"
    by (auto simp: isupper_def lower_def list_ex_iff)
  then have "is_lower (to_lower c)"
    using is_cased_lower_is_lower[of c] by (simp add: is_cased_to_lower)
  moreover have "\<not> is_lower (to_lower c)"
    using a c(1) by (auto simp: isupper_def lower_def list_all_iff)
  ultimately show False by simp
qed

lemma strip_map:
  assumes "\<And>c. is_space (f c) = is_space c"
  shows "strip (map f s) = map f (strip s)"
proof -
  have eq: "is_space \<circ> f = is_space" using assms by (simp add: fun_eq_iff)
  have dw: "dropWhile is_space (map f xs) = map f (dropWhile is_space xs)" for xs
    by (simp add: dropWhile_map eq)
  show ?thesis
    by (simp add: strip_def dw rev_map)
qed

lemma strip_lower: "strip (lower s) = lower (strip s)"
  by (simp add: lower_def strip_map is_space_to_lower)

text \<open>The uppercase form of a character is whitespace only when it is the character
  itself, and reads the same in both directions.\<close>

lemma upper_chars_space: "is_space c \<Longrightarrow> upper_chars c = [c]"
  using not_space_letters(1) by (auto simp: upper_chars_def to_upper_space)

lemma upper_chars_not_space:
  "\<not> is_space c \<Longrightarrow> \<exists>x xs. upper_chars c = x # xs \<and> \<not> is_space x"
  using not_space_letters(2) by (simp add: upper_chars_def is_space_to_upper)

lemma rev_upper_chars: "rev (upper_chars c) = upper_chars c"
  by (simp add: upper_chars_def)

lemma length_upper_chars: "1 \<le> length (upper_chars c)"
  by (simp add: upper_chars_def)

lemma dropWhile_upper: "dropWhile is_space (upper s) = upper (dropWhile is_space s)"
proof (induction s)
  case Nil
  show ?case by (simp add: upper_def)
next
  case (Cons c s)
  show ?case
  proof (cases "is_space c")
    case True
    then show ?thesis using Cons.IH by (simp add: upper_def upper_chars_space)
  next
    case False
    then obtain x xs where "upper_chars c = x # xs" "\<not> is_space x"
      using upper_chars_not_space by blast
    with False show ?thesis by (simp add: upper_def)
  qed
qed

lemma rev_upper: "rev (upper s) = upper (rev s)"
  by (induction s) (simp_all add: upper_def rev_upper_chars)

lemma strip_upper: "strip (upper s) = upper (strip s)"
  by (simp add: strip_def dropWhile_upper rev_upper)

lemma upper_lower: "upper (lower s) = upper s"
  by (simp add: upper_def lower_def upper_chars_to_lower comp_def)

lemma length_upper: "length s \<le> length (upper s)"
proof (induction s)
  case Nil
  show ?case by simp
next
  case (Cons c s)
  then show ?case using length_upper_chars[of c] by (simp add: upper_def)
qed

section \<open>State normalization\<close>

text \<open>What the proofs need of the table, checked entry by entry.\<close>

lemma state_table:
  "\<forall>(n, a) \<in> set STATE_ABBREV.
     n \<noteq> [] \<and> strip n = n \<and> 2 < length n \<and> map_of STATE_ABBREV n = Some a
     \<and> a \<noteq> [] \<and> strip a = a \<and> length a = 2 \<and> normalize_state a = a"
  by code_simp

lemma map_of_state_short: "length k \<le> 2 \<Longrightarrow> map_of STATE_ABBREV k = None"
proof (rule ccontr)
  assume l: "length k \<le> 2" and "map_of STATE_ABBREV k \<noteq> None"
  then obtain a where "map_of STATE_ABBREV k = Some a" by auto
  then have "(k, a) \<in> set STATE_ABBREV" by (rule map_of_SomeD)
  with state_table have "2 < length k" by blast
  with l show False by simp
qed

lemma normalize_state_name:
  assumes "(name, abbrev) \<in> set STATE_ABBREV" and "lower s = name"
  shows "normalize_state s = abbrev"
proof -
  from assms(1) state_table have t: "name \<noteq> []" "strip name = name"
    "map_of STATE_ABBREV name = Some abbrev" by blast+
  have ne: "s \<noteq> []" using t(1) assms(2) by (auto simp: lower_def)
  have st: "lower (strip s) = name" using t(2) assms(2) by (simp add: strip_lower[symmetric])
  show ?thesis
    using not_isupper_lower[of "strip s"]
    by (simp add: normalize_state_def ne st t(3) Let_def)
qed

lemma normalize_state_code:
  assumes "(name, abbrev) \<in> set STATE_ABBREV" and "upper s = abbrev"
  shows "normalize_state s = abbrev"
proof -
  from assms(1) state_table have t: "abbrev \<noteq> []" "strip abbrev = abbrev" "length abbrev = 2"
    by blast+
  have ne: "s \<noteq> []" using t(1) assms(2) by (auto simp: upper_def)
  have st: "upper (strip s) = abbrev"
    using t(2) assms(2) by (simp add: strip_upper[symmetric])
  have "length (strip s) \<le> length (upper (strip s))" by (rule length_upper)
  then have len: "length (lower (strip s)) \<le> 2" using st t(3) by (simp add: lower_def)
  have up: "upper (lower (strip s)) = abbrev" using st by (simp add: upper_lower)
  show ?thesis
    using not_isupper_lower[of "strip s"] map_of_state_short[OF len]
    by (simp add: normalize_state_def ne up Let_def)
qed

lemma normalize_state_abbrev:
  "(name, abbrev) \<in> set STATE_ABBREV \<Longrightarrow> normalize_state abbrev = abbrev"
  using state_table by blast

text \<open>
  Claim C7.  For every entry of the state table, a string that spells the full name in any
  letter case, and a string that spells the two-letter code in any letter case, are both
  normalized to the entry's uppercase code; a second normalization returns the same
  code.  In particular \<open>illinois\<close> gives \<open>IL\<close>, \<open>ca\<close> gives \<open>CA\<close> and \<open>TX\<close> gives \<open>TX\<close>.
\<close>

theorem normalize_state_codes:
  "((name, abbrev) \<in> set STATE_ABBREV \<and> lower s = name \<longrightarrow>
       normalize_state s = abbrev \<and> normalize_state (normalize_state s) = normalize_state s)
   \<and> ((name, abbrev) \<in> set STATE_ABBREV \<and> upper s = abbrev \<longrightarrow>
       normalize_state s = abbrev \<and> normalize_state (normalize_state s) = normalize_state s)
   \<and> normalize_state ''illinois'' = ''IL'' \<and> normalize_state ''ca'' = ''CA''
   \<and> normalize_state ''TX'' = ''TX''"
proof -
  have ex: "normalize_state ''illinois'' = ''IL'' \<and> normalize_state ''ca'' = ''CA''
   \<and> normalize_state ''TX'' = ''TX''" by code_simp
  show ?thesis
    using ex normalize_state_name[of name abbrev s] normalize_state_code[of name abbrev s]
      normalize_state_abbrev[of name abbrev]
    by auto
qed

text \<open>\<open>New YORK\<close> and \<open>ny\<close> both give \<open>NY\<close>.\<close>

theorem normalize_state_codes_witness:
  "(''new york'', ''NY'') \<in> set STATE_ABBREV \<and> lower ''New YORK'' = ''new york''
   \<and> normalize_state ''New YORK'' = ''NY''
   \<and> normalize_state (normalize_state ''New YORK'') = normalize_state ''New YORK''
   \<and> upper ''ny'' = ''NY'' \<and> normalize_state ''ny'' = ''NY''
   \<and> normalize_state (normalize_state ''ny'') = normalize_state ''ny''"
proof -
  have h1: "(''new york'', ''NY'') \<in> set STATE_ABBREV" by (simp add: STATE_ABBREV_def)
  have h2: "lower ''New YORK'' = ''new york''" by (simp add: lower_def to_lower_def is_upper_def)
  have h3: "upper ''ny'' = ''NY''" by code_simp
  show ?thesis
    using h1 h2 h3 normalize_state_codes[of "''new york''" "''NY''" "''New YORK''"]
      normalize_state_codes[of "''new york''" "''NY''" "''ny''"]
    by blast
qed

section \<open>Fingerprints of normalized addresses\<close>
























end
